theory Spec2Isabelle
  imports Complex_Main
begin

section \<open>JavaScript numbers\<close>

text \<open>
  Every numeric field of the application is a JavaScript Number, an IEEE 754 binary64
  value. A finite value is \<open>Num r\<close> with \<open>r\<close> its real value, and \<open>PosInf\<close>, \<open>NegInf\<close> and
  \<open>NaN\<close> are Infinity, -Infinity and NaN. Zero carries no sign (a zero divisor behaves
  as +0). The operations \<open>js_add\<close>, \<open>js_mul\<close>, \<open>js_div\<close> below give the result of an
  operator before it is rounded; \<open>to_double\<close> further down is the rounding to the nearest
  binary64 value, and \<open>fl_sub\<close>, \<open>fl_mul\<close>, \<open>fl_div\<close> are the operators as they are
  evaluated: the exact result, rounded.
\<close>

datatype jsnum = Num real | PosInf | NegInf | NaN

fun js_neg :: "jsnum \<Rightarrow> jsnum" where
  "js_neg (Num a) = Num (- a)"
| "js_neg PosInf = NegInf"
| "js_neg NegInf = PosInf"
| "js_neg NaN = NaN"

fun js_add :: "jsnum \<Rightarrow> jsnum \<Rightarrow> jsnum" where
  "js_add NaN _ = NaN"
| "js_add _ NaN = NaN"
| "js_add (Num a) (Num b) = Num (a + b)"
| "js_add PosInf NegInf = NaN"
| "js_add NegInf PosInf = NaN"
| "js_add PosInf _ = PosInf"
| "js_add _ PosInf = PosInf"
| "js_add NegInf _ = NegInf"
| "js_add _ NegInf = NegInf"

definition js_sub :: "jsnum \<Rightarrow> jsnum \<Rightarrow> jsnum" where
  "js_sub a b = js_add a (js_neg b)"

fun js_mul :: "jsnum \<Rightarrow> jsnum \<Rightarrow> jsnum" where
  "js_mul NaN _ = NaN"
| "js_mul _ NaN = NaN"
| "js_mul (Num a) (Num b) = Num (a * b)"
| "js_mul (Num a) PosInf = (if a = 0 then NaN else if 0 < a then PosInf else NegInf)"
| "js_mul (Num a) NegInf = (if a = 0 then NaN else if 0 < a then NegInf else PosInf)"
| "js_mul PosInf (Num b) = (if b = 0 then NaN else if 0 < b then PosInf else NegInf)"
| "js_mul NegInf (Num b) = (if b = 0 then NaN else if 0 < b then NegInf else PosInf)"
| "js_mul PosInf PosInf = PosInf"
| "js_mul PosInf NegInf = NegInf"
| "js_mul NegInf PosInf = NegInf"
| "js_mul NegInf NegInf = PosInf"

text \<open>
  Division never raises in JavaScript: a finite non-zero value over zero is an infinity,
  zero over zero and infinity over infinity are NaN.
\<close>

fun js_div :: "jsnum \<Rightarrow> jsnum \<Rightarrow> jsnum" where
  "js_div NaN _ = NaN"
| "js_div _ NaN = NaN"
| "js_div (Num a) (Num b) =
     (if b \<noteq> 0 then Num (a / b)
      else if a = 0 then NaN
      else if 0 < a then PosInf else NegInf)"
| "js_div (Num a) PosInf = Num 0"
| "js_div (Num a) NegInf = Num 0"
| "js_div PosInf (Num b) = (if 0 \<le> b then PosInf else NegInf)"
| "js_div NegInf (Num b) = (if 0 \<le> b then NegInf else PosInf)"
| "js_div _ _ = NaN"

text \<open>The relational operators: every comparison with NaN is false.\<close>

fun js_lt :: "jsnum \<Rightarrow> jsnum \<Rightarrow> bool" where
  "js_lt NaN _ = False"
| "js_lt _ NaN = False"
| "js_lt (Num a) (Num b) = (a < b)"
| "js_lt (Num a) PosInf = True"
| "js_lt (Num a) NegInf = False"
| "js_lt PosInf _ = False"
| "js_lt NegInf NegInf = False"
| "js_lt NegInf _ = True"

definition js_gt :: "jsnum \<Rightarrow> jsnum \<Rightarrow> bool" where
  "js_gt a b = js_lt b a"

definition js_ge :: "jsnum \<Rightarrow> jsnum \<Rightarrow> bool" where
  "js_ge a b = (a \<noteq> NaN \<and> b \<noteq> NaN \<and> \<not> js_lt a b)"

text \<open>\<open>Math.min\<close>, \<open>Math.max\<close>, \<open>Math.abs\<close> and \<open>Math.round\<close>. \<open>Math.round\<close> returns the
  nearest integer and rounds a tie upwards, which is \<open>\<lfloor>x + 1/2\<rfloor>\<close>, the \<^const>\<open>round\<close>
  of the library. All four return one of their arguments or a whole number, so their
  results need no rounding.\<close>

definition Math_min :: "jsnum \<Rightarrow> jsnum \<Rightarrow> jsnum" where
  "Math_min a b = (if a = NaN \<or> b = NaN then NaN else if js_lt b a then b else a)"

definition Math_max :: "jsnum \<Rightarrow> jsnum \<Rightarrow> jsnum" where
  "Math_max a b = (if a = NaN \<or> b = NaN then NaN else if js_lt a b then b else a)"

fun Math_abs :: "jsnum \<Rightarrow> jsnum" where
  "Math_abs (Num a) = Num \<bar>a\<bar>"
| "Math_abs PosInf = PosInf"
| "Math_abs NegInf = PosInf"
| "Math_abs NaN = NaN"

fun Math_round :: "jsnum \<Rightarrow> jsnum" where
  "Math_round (Num a) = Num (of_int (round a))"
| "Math_round x = x"

text \<open>\<open>x || 0\<close> on a number: NaN and zero are falsy, every other number is kept.\<close>

definition or_zero :: "jsnum \<Rightarrow> jsnum" where
  "or_zero x = (if x = NaN \<or> x = Num 0 then Num 0 else x)"

text \<open>A property that may be absent reads as \<open>undefined\<close>, modelled as \<open>None\<close>;
  \<open>undefined || 0\<close> is \<open>0\<close>.\<close>

definition or_zero_opt :: "jsnum option \<Rightarrow> jsnum" where
  "or_zero_opt x = (case x of None \<Rightarrow> Num 0 | Some v \<Rightarrow> or_zero v)"

text \<open>\<open>a > b\<close> where \<open>b\<close> may be \<open>undefined\<close>: \<open>undefined\<close> converts to NaN, so the
  comparison is false.\<close>

definition js_gt_opt :: "jsnum \<Rightarrow> jsnum option \<Rightarrow> bool" where
  "js_gt_opt a b = (case b of None \<Rightarrow> False | Some v \<Rightarrow> js_gt a v)"

section \<open>Rounding to binary64\<close>

text \<open>
  A binary64 value has a 53-bit significand and a binary exponent from -1022 to 1023.
  The rounding of a real takes its binary exponent \<open>e\<close> (not below -1022, where the
  subnormal values begin), rounds to a multiple of \<open>2^(e - 52)\<close> with ties going to the
  even multiple, and overflows to an infinity when the rounded magnitude reaches
  \<open>2^1024\<close>.
\<close>

definition pow2 :: "int \<Rightarrow> real" where
  "pow2 k = (if 0 \<le> k then 2 ^ nat k else 1 / 2 ^ nat (- k))"

definition round_half_even :: "real \<Rightarrow> int" where
  "round_half_even x =
     (let f = \<lfloor>x\<rfloor>
      in if x - of_int f < 1 / 2 then f
         else if 1 / 2 < x - of_int f then f + 1
         else if even f then f else f + 1)"

text \<open>The binary exponent \<open>\<lfloor>log\<^sub>2 x\<rfloor>\<close> of a positive real, found by halving or doubling at
  most \<open>n\<close> times; 1100 steps reach beyond both ends of the exponent range.\<close>

fun binary_exponent :: "nat \<Rightarrow> real \<Rightarrow> int" where
  "binary_exponent n x =
     (if n = 0 then 0
      else if 2 \<le> x then binary_exponent (n - 1) (x / 2) + 1
      else if x < 1 then binary_exponent (n - 1) (x * 2) - 1
      else 0)"

declare binary_exponent.simps [simp del]

definition to_double :: "real \<Rightarrow> jsnum" where
  "to_double x =
     (if x = 0 then Num 0
      else
        (let a = \<bar>x\<bar>;
             e = max (binary_exponent 1100 a) (- 1022);
             u = pow2 (e - 52);
             r = of_int (round_half_even (a / u)) * u
         in if 2 ^ 1024 \<le> r then (if 0 < x then PosInf else NegInf)
            else Num (if 0 < x then r else - r)))"

definition round_num :: "jsnum \<Rightarrow> jsnum" where
  "round_num x = (case x of Num r \<Rightarrow> to_double r | _ \<Rightarrow> x)"

definition fl_sub :: "jsnum \<Rightarrow> jsnum \<Rightarrow> jsnum" where
  "fl_sub a b = round_num (js_sub a b)"

definition fl_mul :: "jsnum \<Rightarrow> jsnum \<Rightarrow> jsnum" where
  "fl_mul a b = round_num (js_mul a b)"

definition fl_div :: "jsnum \<Rightarrow> jsnum \<Rightarrow> jsnum" where
  "fl_div a b = round_num (js_div a b)"

section \<open>The Goal document (server/models/Goal.js)\<close>

text \<open>
  Dates are milliseconds since the epoch, identifiers of users are strings. Of the schema,
  the record keeps the paths \<open>updateProgress\<close> reads or writes; the operations are
  stated over the extensible record, so every other path of a document is carried along
  unchanged.
\<close>

type_synonym date = int
type_synonym object_id = string

datatype direction = Increase | Decrease | Maintain

datatype status = Active | Completed | Paused | Cancelled | Overdue

record target_metric =
  currentValue :: jsnum
  targetValue :: jsnum
  direction :: direction

record update_entry =
  date :: date
  value_u :: jsnum
  notes_u :: "string option"
  updatedBy :: object_id

record progress_rec =
  percentage :: jsnum
  updates :: "update_entry list"

record goal =
  targetMetric :: target_metric
  targetDate :: date
  status :: status
  progress :: progress_rec
  completedAt :: "date option"

text \<open>
  \<open>updateProgress\<close> mutates the document in five steps, in the order of the source:
  store the new value, recompute the percentage, push the log entry, check completion,
  check the due date. The method reads the clock three times (\<open>new Date()\<close> for the log
  entry, for \<open>completedAt\<close> and for the due-date test); the three readings are the
  parameters \<open>t1\<close>, \<open>t2\<close>, \<open>t3\<close>. The final \<open>this.save()\<close> hands the mutated document to
  the persistence layer; the function returns that document.
\<close>

definition compute_percentage :: "target_metric \<Rightarrow> jsnum" where
  "compute_percentage m =
     (case direction m of
        Increase \<Rightarrow> Math_min (Num 100) (fl_mul (fl_div (currentValue m) (targetValue m)) (Num 100))
      | Decrease \<Rightarrow>
          Math_min (Num 100)
            (fl_mul (fl_div (fl_sub (targetValue m) (currentValue m)) (targetValue m)) (Num 100))
      | Maintain \<Rightarrow>
          (let difference = Math_abs (fl_sub (currentValue m) (targetValue m))
           in Math_max (Num 0)
                (fl_sub (Num 100) (fl_mul (fl_div difference (targetValue m)) (Num 100)))))"

definition set_current :: "jsnum \<Rightarrow> ('a goal_scheme) \<Rightarrow> ('a goal_scheme)" where
  "set_current newValue g = g\<lparr>targetMetric := (targetMetric g)\<lparr>currentValue := newValue\<rparr>\<rparr>"

definition set_percentage :: "('a goal_scheme) \<Rightarrow> ('a goal_scheme)" where
  "set_percentage g =
     g\<lparr>progress := (progress g)\<lparr>percentage := Math_round (compute_percentage (targetMetric g))\<rparr>\<rparr>"

definition push_update :: "update_entry \<Rightarrow> ('a goal_scheme) \<Rightarrow> ('a goal_scheme)" where
  "push_update e g = g\<lparr>progress := (progress g)\<lparr>updates := updates (progress g) @ [e]\<rparr>\<rparr>"

definition check_completed :: "date \<Rightarrow> ('a goal_scheme) \<Rightarrow> ('a goal_scheme)" where
  "check_completed t2 g =
     (if js_ge (percentage (progress g)) (Num 100) \<and> status g = Active
      then g\<lparr>status := Completed, completedAt := Some t2\<rparr>
      else g)"

definition check_overdue :: "date \<Rightarrow> ('a goal_scheme) \<Rightarrow> ('a goal_scheme)" where
  "check_overdue t3 g =
     (if targetDate g < t3 \<and> status g = Active then g\<lparr>status := Overdue\<rparr> else g)"

definition updateProgress ::
  "('a goal_scheme) \<Rightarrow> jsnum \<Rightarrow> string option \<Rightarrow> object_id \<Rightarrow> date \<Rightarrow> date \<Rightarrow> date
   \<Rightarrow> ('a goal_scheme)" where
  "updateProgress g newValue nts updater t1 t2 t3 =
     check_overdue t3
       (check_completed t2
          (push_update \<lparr>date = t1, value_u = newValue, notes_u = nts, updatedBy = updater\<rparr>
             (set_percentage (set_current newValue g))))"

text \<open>The schema declares \<open>progress.percentage\<close> with \<open>min: 0, max: 100\<close>; this is the
  test those two validators make on the stored number.\<close>

definition percentage_in_schema_range :: "jsnum \<Rightarrow> bool" where
  "percentage_in_schema_range p = (js_ge p (Num 0) \<and> js_ge (Num 100) p)"

section \<open>The Stat document (server/models/Stat.js)\<close>

text \<open>
  One record per game, with one bag of counters per sport. The records keep the counters
  that the virtuals and the report helpers read.
\<close>

record basketball_stats =
  points :: jsnum
  fieldGoalsMade :: jsnum
  fieldGoalsAttempted :: jsnum
  threePointersMade :: jsnum
  threePointersAttempted :: jsnum
  freeThrowsMade :: jsnum
  freeThrowsAttempted :: jsnum
  rebounds :: jsnum
  assists :: jsnum

record soccer_stats =
  goals :: jsnum
  assists_soccer :: jsnum
  shots :: jsnum
  passes :: jsnum
  passesCompleted :: jsnum

record football_stats =
  passingAttempts :: jsnum
  passingCompletions :: jsnum

record stat =
  gameDate :: date
  basketball :: basketball_stats
  soccer :: soccer_stats
  football :: football_stats

text \<open>The five virtuals: a ratio in percent, guarded by \<open>attempted > 0\<close>.\<close>

definition fieldGoalPercentage :: "stat \<Rightarrow> jsnum" where
  "fieldGoalPercentage this =
     (if js_gt (fieldGoalsAttempted (basketball this)) (Num 0)
      then fl_mul (fl_div (fieldGoalsMade (basketball this)) (fieldGoalsAttempted (basketball this)))
             (Num 100)
      else Num 0)"

definition threePointPercentage :: "stat \<Rightarrow> jsnum" where
  "threePointPercentage this =
     (if js_gt (threePointersAttempted (basketball this)) (Num 0)
      then fl_mul
             (fl_div (threePointersMade (basketball this)) (threePointersAttempted (basketball this)))
             (Num 100)
      else Num 0)"

definition freeThrowPercentage :: "stat \<Rightarrow> jsnum" where
  "freeThrowPercentage this =
     (if js_gt (freeThrowsAttempted (basketball this)) (Num 0)
      then fl_mul (fl_div (freeThrowsMade (basketball this)) (freeThrowsAttempted (basketball this)))
             (Num 100)
      else Num 0)"

definition passAccuracy :: "stat \<Rightarrow> jsnum" where
  "passAccuracy this =
     (if js_gt (passes (soccer this)) (Num 0)
      then fl_mul (fl_div (passesCompleted (soccer this)) (passes (soccer this))) (Num 100)
      else Num 0)"

definition passCompletionPercentage :: "stat \<Rightarrow> jsnum" where
  "passCompletionPercentage this =
     (if js_gt (passingAttempts (football this)) (Num 0)
      then fl_mul (fl_div (passingCompletions (football this)) (passingAttempts (football this)))
             (Num 100)
      else Num 0)"

section \<open>The report helpers\<close>

text \<open>
  \<open>xs.reduce((sum, x) => sum + f(x), 0)\<close> is a left fold from zero, and the averages of
  the helpers divide such a sum by \<open>xs.length\<close>. The sum and the mean are kept at
  their values before rounding: what is proved about the helpers is which properties a
  result has, what the empty list gives, and sums and means of whole numbers.
\<close>

definition reduce_sum :: "('a \<Rightarrow> jsnum) \<Rightarrow> 'a list \<Rightarrow> jsnum" where
  "reduce_sum f xs = foldl (\<lambda>sum x. js_add sum (f x)) (Num 0) xs"

definition reduce_avg :: "('a \<Rightarrow> jsnum) \<Rightarrow> 'a list \<Rightarrow> jsnum" where
  "reduce_avg f xs = js_div (reduce_sum f xs) (Num (real (length xs)))"

subsection \<open>calculateAnalytics\<close>

text \<open>
  The accumulator of the \<open>bestGame\<close> reduction is the seed object
  \<open>{ basketball: { points: 0 } }\<close> or a Stat document. The callback compares
  \<open>stat.basketball.points\<close> with \<open>best.points\<close>, the property \<open>points\<close> of the accumulator
  itself: the seed has the single key \<open>basketball\<close>, and the Stat schema declares no
  path \<open>points\<close> at the top level, so that property is \<open>undefined\<close> on both.
\<close>

datatype best_game = Sentinel | Game stat

fun best_points :: "best_game \<Rightarrow> jsnum option" where
  "best_points Sentinel = None"
| "best_points (Game s) = None"

fun best_basketball_points :: "best_game \<Rightarrow> jsnum" where
  "best_basketball_points Sentinel = Num 0"
| "best_basketball_points (Game s) = points (basketball s)"

definition best_step :: "best_game \<Rightarrow> stat \<Rightarrow> best_game" where
  "best_step best s = (if js_gt_opt (points (basketball s)) (best_points best) then Game s else best)"

text \<open>The result object: a property that the returned literal does not have is \<open>None\<close>.\<close>

record analytics =
  totalGames :: nat
  averagePoints :: "jsnum option"
  averageRebounds :: "jsnum option"
  averageAssists :: "jsnum option"
  averageFieldGoalPercentage :: "jsnum option"
  averageThreePointPercentage :: "jsnum option"
  averageFreeThrowPercentage :: "jsnum option"
  bestGame :: "best_game option"
  totalGoals_a :: "jsnum option"
  totalAssists :: "jsnum option"
  averagePassAccuracy :: "jsnum option"
  averageShots :: "jsnum option"

definition only_totalGames :: "nat \<Rightarrow> analytics" where
  "only_totalGames n =
     \<lparr>totalGames = n, averagePoints = None, averageRebounds = None, averageAssists = None,
      averageFieldGoalPercentage = None, averageThreePointPercentage = None,
      averageFreeThrowPercentage = None, bestGame = None, totalGoals_a = None,
      totalAssists = None, averagePassAccuracy = None, averageShots = None\<rparr>"

definition calculateAnalytics :: "stat list \<Rightarrow> string \<Rightarrow> analytics" where
  "calculateAnalytics stats sport =
     (if length stats = 0 then only_totalGames 0
      else if sport = ''basketball'' then
        (only_totalGames (length stats))
          \<lparr>averagePoints := Some (reduce_avg (\<lambda>s. or_zero (points (basketball s))) stats),
           averageRebounds := Some (reduce_avg (\<lambda>s. or_zero (rebounds (basketball s))) stats),
           averageAssists := Some (reduce_avg (\<lambda>s. or_zero (assists (basketball s))) stats),
           averageFieldGoalPercentage := Some (reduce_avg fieldGoalPercentage stats),
           averageThreePointPercentage := Some (reduce_avg threePointPercentage stats),
           averageFreeThrowPercentage := Some (reduce_avg freeThrowPercentage stats),
           bestGame := Some (foldl best_step Sentinel stats)\<rparr>
      else if sport = ''soccer'' then
        (only_totalGames (length stats))
          \<lparr>totalGoals_a := Some (reduce_sum (\<lambda>s. or_zero (goals (soccer s))) stats),
           totalAssists := Some (reduce_sum (\<lambda>s. or_zero (assists_soccer (soccer s))) stats),
           averagePassAccuracy := Some (reduce_avg passAccuracy stats),
           averageShots := Some (reduce_avg (\<lambda>s. or_zero (shots (soccer s))) stats)\<rparr>
      else only_totalGames (length stats))"

subsection \<open>calculateGoalProgress\<close>

record goal_progress =
  totalGoals :: "nat option"
  activeGoals :: nat
  completedGoals :: nat
  averageProgress :: jsnum

definition calculateGoalProgress :: "('a goal_scheme) list \<Rightarrow> goal_progress" where
  "calculateGoalProgress gs =
     (if length gs = 0
      then \<lparr>totalGoals = None, activeGoals = 0, completedGoals = 0, averageProgress = Num 0\<rparr>
      else
        (let active = filter (\<lambda>g. status g = Active) gs;
             completed = filter (\<lambda>g. status g = Completed) gs;
             average = reduce_avg (\<lambda>g. percentage (progress g)) gs
         in \<lparr>totalGoals = Some (length gs), activeGoals = length active,
             completedGoals = length completed, averageProgress = Math_round average\<rparr>))"

subsection \<open>calculateTeamAverages\<close>








subsection \<open>generateSummary\<close>

text \<open>
  The sentences are template literals. How a Number prints is the language's business:
  \<open>str\<close> stands for the conversion of a Number inside a template literal and \<open>toFixed\<close>
  for \<open>toFixed(1)\<close>; both are parameters. \<open>s || 0\<close> on a string keeps a non-empty string
  and yields \<open>0\<close> (printed through \<open>str\<close>) for the empty one.
\<close>

definition fixed_or_zero :: "(jsnum \<Rightarrow> string) \<Rightarrow> (jsnum \<Rightarrow> string) \<Rightarrow> jsnum option \<Rightarrow> string" where
  "fixed_or_zero str toFixed x =
     (case x of
        None \<Rightarrow> str (Num 0)
      | Some v \<Rightarrow> (if toFixed v = [] then str (Num 0) else toFixed v))"

definition played_sentence :: "(jsnum \<Rightarrow> string) \<Rightarrow> analytics \<Rightarrow> string" where
  "played_sentence str a =
     ''Played '' @ str (Num (real (totalGames a))) @ '' games in the reporting period.''"

definition averaged_sentence ::
  "(jsnum \<Rightarrow> string) \<Rightarrow> (jsnum \<Rightarrow> string) \<Rightarrow> analytics \<Rightarrow> string" where
  "averaged_sentence str toFixed a =
     ''Averaged '' @ fixed_or_zero str toFixed (averagePoints a) @ '' points, ''
       @ fixed_or_zero str toFixed (averageRebounds a) @ '' rebounds, and ''
       @ fixed_or_zero str toFixed (averageAssists a) @ '' assists per game.''"

definition scored_sentence :: "(jsnum \<Rightarrow> string) \<Rightarrow> analytics \<Rightarrow> string" where
  "scored_sentence str a =
     ''Scored '' @ str (or_zero_opt (totalGoals_a a)) @ '' goals and provided ''
       @ str (or_zero_opt (totalAssists a)) @ '' assists.''"

definition working_sentence :: "(jsnum \<Rightarrow> string) \<Rightarrow> goal_progress \<Rightarrow> string" where
  "working_sentence str gp =
     ''Working on '' @ str (Num (real (activeGoals gp))) @ '' active goals with ''
       @ str (averageProgress gp) @ ''% average progress.''"

definition completed_sentence :: "(jsnum \<Rightarrow> string) \<Rightarrow> goal_progress \<Rightarrow> string" where
  "completed_sentence str gp =
     ''Successfully completed '' @ str (Num (real (completedGoals gp))) @ '' goals.''"

text \<open>\<open>goalProgress.totalGoals > 0\<close>: false when the property is absent.\<close>

definition totalGoals_positive :: "goal_progress \<Rightarrow> bool" where
  "totalGoals_positive gp = (case totalGoals gp of None \<Rightarrow> False | Some n \<Rightarrow> 0 < n)"

text \<open>The array \<open>summary\<close> after the pushes of the stats block and of the goals block.\<close>

definition stats_block ::
  "(jsnum \<Rightarrow> string) \<Rightarrow> (jsnum \<Rightarrow> string) \<Rightarrow> analytics \<Rightarrow> string \<Rightarrow> string list" where
  "stats_block str toFixed a sport =
     (if 0 < totalGames a then
        played_sentence str a #
          (if sport = ''basketball'' then [averaged_sentence str toFixed a]
           else if sport = ''soccer'' then [scored_sentence str a]
           else [])
      else [])"

definition goals_block :: "(jsnum \<Rightarrow> string) \<Rightarrow> goal_progress \<Rightarrow> string list" where
  "goals_block str gp =
     (if totalGoals_positive gp then
        working_sentence str gp #
          (if 0 < completedGoals gp then [completed_sentence str gp] else [])
      else [])"

definition summary_array ::
  "(jsnum \<Rightarrow> string) \<Rightarrow> (jsnum \<Rightarrow> string) \<Rightarrow> analytics \<Rightarrow> goal_progress \<Rightarrow> string
   \<Rightarrow> string list" where
  "summary_array str toFixed a gp sport = stats_block str toFixed a sport @ goals_block str gp"

text \<open>\<open>Array.prototype.join\<close>: the empty string for the empty array, otherwise the
  elements with the separator between neighbours.\<close>

fun join :: "string \<Rightarrow> string list \<Rightarrow> string" where
  "join sep [] = []"
| "join sep [x] = x"
| "join sep (x # y # ys) = x @ sep @ join sep (y # ys)"

definition generateSummary ::
  "(jsnum \<Rightarrow> string) \<Rightarrow> (jsnum \<Rightarrow> string) \<Rightarrow> analytics \<Rightarrow> goal_progress \<Rightarrow> string \<Rightarrow> string" where
  "generateSummary str toFixed a gp sport = join '' '' (summary_array str toFixed a gp sport)"

section \<open>The documented formulas and the example documents\<close>


text \<open>The same formula over the reals, without any rounding of the intermediate
  results, for comparison.\<close>

definition percentage_formula :: "direction \<Rightarrow> real \<Rightarrow> real \<Rightarrow> real" where
  "percentage_formula d cur tgt =
     (case d of
        Increase \<Rightarrow> min 100 (cur / tgt * 100)
      | Decrease \<Rightarrow> min 100 ((tgt - cur) / tgt * 100)
      | Maintain \<Rightarrow> max 0 (100 - \<bar>cur - tgt\<bar> / tgt * 100))"

text \<open>A fresh goal: current value 0, no log entry, never completed.\<close>

definition fresh_goal :: "direction \<Rightarrow> real \<Rightarrow> status \<Rightarrow> date \<Rightarrow> goal" where
  "fresh_goal d tgt st due =
     \<lparr>targetMetric = \<lparr>currentValue = Num 0, targetValue = Num tgt, direction = d\<rparr>,
      targetDate = due, status = st,
      progress = \<lparr>percentage = Num 0, updates = []\<rparr>, completedAt = None\<rparr>"

text \<open>Finite numbers and their real value, to state results over the reals.\<close>

fun is_finite :: "jsnum \<Rightarrow> bool" where
  "is_finite (Num r) = True"
| "is_finite x = False"

fun real_of :: "jsnum \<Rightarrow> real" where
  "real_of (Num r) = r"
| "real_of x = 0"

text \<open>The documented display ratio: made over attempted in percent when the attempt
  counter is positive, and 0 otherwise, with the operations of JavaScript.\<close>

definition documented_ratio :: "jsnum \<Rightarrow> jsnum \<Rightarrow> jsnum" where
  "documented_ratio made attempted =
     (if js_gt attempted (Num 0) then fl_mul (fl_div made attempted) (Num 100) else Num 0)"

definition finite_counters :: "stat \<Rightarrow> bool" where
  "finite_counters s =
     (is_finite (fieldGoalsMade (basketball s)) \<and> is_finite (fieldGoalsAttempted (basketball s)) \<and>
      is_finite (threePointersMade (basketball s)) \<and>
      is_finite (threePointersAttempted (basketball s)) \<and>
      is_finite (freeThrowsMade (basketball s)) \<and> is_finite (freeThrowsAttempted (basketball s)) \<and>
      is_finite (passesCompleted (soccer s)) \<and> is_finite (passes (soccer s)) \<and>
      is_finite (passingCompletions (football s)) \<and> is_finite (passingAttempts (football s)))"

text \<open>A basketball record with the given points, field goals made and attempted, and
  every other counter at its schema default 0.\<close>

definition basketball_game :: "real \<Rightarrow> real \<Rightarrow> real \<Rightarrow> stat" where
  "basketball_game pts made attempted =
     \<lparr>gameDate = 0,
      basketball = \<lparr>points = Num pts, fieldGoalsMade = Num made, fieldGoalsAttempted = Num attempted,
        threePointersMade = Num 0, threePointersAttempted = Num 0, freeThrowsMade = Num 0,
        freeThrowsAttempted = Num 0, rebounds = Num 0, assists = Num 0\<rparr>,
      soccer = \<lparr>goals = Num 0, assists_soccer = Num 0, shots = Num 0, passes = Num 0,
        passesCompleted = Num 0\<rparr>,
      football = \<lparr>passingAttempts = Num 0, passingCompletions = Num 0\<rparr>\<rparr>"

text \<open>A basketball record whose two field-goal counters are both Infinity, as a request
  body with \<open>1e999\<close> for each of them stores them.\<close>

definition overflowed_game :: stat where
  "overflowed_game =
     (basketball_game 0 0 0)
       \<lparr>basketball :=
          (basketball (basketball_game 0 0 0))
            \<lparr>fieldGoalsMade := PosInf, fieldGoalsAttempted := PosInf\<rparr>\<rparr>"

text \<open>A soccer record with the given goals and assists, every other counter 0.\<close>

definition soccer_game :: "real \<Rightarrow> real \<Rightarrow> stat" where
  "soccer_game g a =
     \<lparr>gameDate = 0,
      basketball = \<lparr>points = Num 0, fieldGoalsMade = Num 0, fieldGoalsAttempted = Num 0,
        threePointersMade = Num 0, threePointersAttempted = Num 0, freeThrowsMade = Num 0,
        freeThrowsAttempted = Num 0, rebounds = Num 0, assists = Num 0\<rparr>,
      soccer = \<lparr>goals = Num g, assists_soccer = Num a, shots = Num 0, passes = Num 0,
        passesCompleted = Num 0\<rparr>,
      football = \<lparr>passingAttempts = Num 0, passingCompletions = Num 0\<rparr>\<rparr>"

text \<open>A goal with the given status and stored percentage.\<close>

definition goal_at :: "status \<Rightarrow> real \<Rightarrow> goal" where
  "goal_at st pct =
     \<lparr>targetMetric = \<lparr>currentValue = Num 0, targetValue = Num 100, direction = Increase\<rparr>,
      targetDate = 0, status = st,
      progress = \<lparr>percentage = Num pct, updates = []\<rparr>, completedAt = None\<rparr>"


text \<open>A printer for the examples: decimal digits of a non-negative whole number, and a
  question mark for anything else.\<close>

fun decimal :: "nat \<Rightarrow> string" where
  "decimal n =
     (if n < 10 then [''0123456789'' ! n]
      else decimal (n div 10) @ [''0123456789'' ! (n mod 10)])"

declare decimal.simps [simp del]

definition print_whole :: "jsnum \<Rightarrow> string" where
  "print_whole x =
     (case x of
        Num r \<Rightarrow> (if 0 \<le> r \<and> r = of_int \<lfloor>r\<rfloor> then decimal (nat \<lfloor>r\<rfloor>) else ''?'')
      | _ \<Rightarrow> ''?'')"

definition print_fixed1 :: "jsnum \<Rightarrow> string" where
  "print_fixed1 x = print_whole x @ ''.0''"

section \<open>Properties of updateProgress\<close>


lemma percentage_updateProgress:
  "percentage (progress (updateProgress g v n u t1 t2 t3)) =
     Math_round (compute_percentage ((targetMetric g)\<lparr>currentValue := v\<rparr>))"
  by (simp add: updateProgress_def check_overdue_def check_completed_def push_update_def
      set_percentage_def set_current_def)

lemma updates_updateProgress:
  "updates (progress (updateProgress g v n u t1 t2 t3)) =
     updates (progress g) @ [\<lparr>date = t1, value_u = v, notes_u = n, updatedBy = u\<rparr>]"
  by (simp add: updateProgress_def check_overdue_def check_completed_def push_update_def
      set_percentage_def set_current_def)

lemma status_updateProgress:
  "status (updateProgress g v n u t1 t2 t3) =
     (if status g = Active \<and> js_ge (percentage (progress (updateProgress g v n u t1 t2 t3))) (Num 100)
      then Completed
      else if status g = Active \<and> targetDate g < t3 then Overdue
      else status g)"
  by (auto simp: updateProgress_def check_overdue_def check_completed_def push_update_def
      set_percentage_def set_current_def)

lemma completedAt_updateProgress:
  "completedAt (updateProgress g v n u t1 t2 t3) =
     (if status g = Active \<and> js_ge (percentage (progress (updateProgress g v n u t1 t2 t3))) (Num 100)
      then Some t2
      else completedAt g)"
  by (auto simp: updateProgress_def check_overdue_def check_completed_def push_update_def
      set_percentage_def set_current_def)



text \<open>The roundings to binary64 that the examples of this theory go through.\<close>

lemma to_double_values:
  "to_double 1 = Num 1" "to_double 50 = Num 50" "to_double 100 = Num 100" "to_double 200 = Num 200"
  "to_double (- 1) = Num (- 1)" "to_double (- 3) = Num (- 3)" "to_double (- 20) = Num (- 20)"
  "to_double (- 100) = Num (- 100)" "to_double (- 150) = Num (- 150)"
  "to_double (- 300) = Num (- 300)"
  "to_double (1 / 2) = Num (1 / 2)"
  "to_double (23 / 40) = Num (2589569785738035 / 4503599627370496)"
  "to_double (64739244643450875 / 1125899906842624) = Num (8092405580431359 / 140737488355328)"
  "to_double (7 / 25) = Num (1261007895663739 / 4503599627370496)"
  "to_double (31525197391593475 / 1125899906842624) = Num (7881299347898369 / 281474976710656)"
  "to_double (- (1 / 5)) = Num (- (3602879701896397 / 18014398509481984))"
  "to_double (- (90071992547409925 / 4503599627370496)) = Num (- 20)"
  "to_double (2251799813685248 / 3602879701896397) = Num (5 / 8)"
  "to_double (125 / 2) = Num (125 / 2)"
  apply (simp_all add: to_double_def Let_def)
  apply (simp_all add: binary_exponent.simps)
  apply (simp_all add: pow2_def round_half_even_def)
  done


text \<open>The rounding of the intermediate results shows in the stored percentage. With the
  double nearest to 1.6 as target and the value 1, the quotient rounds to 0.625 and
  63 percent is stored, while the formula over the reals stays below 62.5.\<close>

lemma updateProgress_rounded_intermediate:
  "percentage (progress
     (updateProgress (fresh_goal Increase (3602879701896397 / 2251799813685248) Active 1000) (Num 1)
        None ''u1'' 1 2 3)) = Num 63 \<and>
   percentage_formula Increase 1 (3602879701896397 / 2251799813685248) < 125 / 2"
  using to_double_values
  by (simp add: percentage_updateProgress compute_percentage_def fresh_goal_def Math_min_def
      fl_mul_def fl_div_def round_num_def round_def percentage_formula_def)

text \<open>
  Claim C2 says that the percentage stays in [0,100] for every direction and every new
  value. The method clamps the increase and decrease branches from above only and the
  maintain branch from below only. An increase goal with target 50 updated to -10 gets
  -20 percent; a decrease goal with target 50 updated to 200 gets -300 percent; a
  maintain goal with target -50 updated to 0 gets 200 percent. None of the three passes
  the schema's own \<open>min: 0, max: 100\<close> test.
\<close>

theorem updateProgress_percentage_leaves_range:
  "percentage (progress
     (updateProgress (fresh_goal Increase 50 Active 1000) (Num (- 10)) None ''u1'' 1 2 3))
     = Num (- 20) \<and>
   percentage (progress
     (updateProgress (fresh_goal Decrease 50 Active 1000) (Num 200) None ''u1'' 1 2 3))
     = Num (- 300) \<and>
   percentage (progress
     (updateProgress (fresh_goal Maintain (- 50) Active 1000) (Num 0) None ''u1'' 1 2 3))
     = Num 200 \<and>
   \<not> percentage_in_schema_range (Num (- 20)) \<and>
   \<not> percentage_in_schema_range (Num (- 300)) \<and>
   \<not> percentage_in_schema_range (Num 200)"
  using to_double_values
  by (simp add: percentage_updateProgress compute_percentage_def fresh_goal_def Math_min_def
      Math_max_def js_sub_def fl_sub_def fl_mul_def fl_div_def round_num_def
      percentage_in_schema_range_def js_ge_def)

text \<open>
  Claim C3. Let \<open>reached\<close> say that the recomputed percentage is at least 100. A goal
  that was active and has reached 100 becomes completed, with \<open>completedAt\<close> set to the
  clock reading, whatever the due date is; a goal that was active and has not reached 100
  becomes overdue exactly when the clock reading of the due-date test is past
  \<open>targetDate\<close>, and stays active otherwise; a goal that was not active keeps its status
  and its \<open>completedAt\<close>.
\<close>

theorem updateProgress_status_transition:
  "let g' = updateProgress g v n u t1 t2 t3;
       reached = js_ge (percentage (progress g')) (Num 100)
   in (status g = Active \<and> reached \<longrightarrow> status g' = Completed \<and> completedAt g' = Some t2) \<and>
      (status g = Active \<and> \<not> reached \<and> targetDate g < t3 \<longrightarrow>
         status g' = Overdue \<and> completedAt g' = completedAt g) \<and>
      (status g = Active \<and> \<not> reached \<and> \<not> targetDate g < t3 \<longrightarrow>
         status g' = Active \<and> completedAt g' = completedAt g) \<and>
      (status g \<noteq> Active \<longrightarrow> status g' = status g \<and> completedAt g' = completedAt g)"
  by (simp add: Let_def status_updateProgress completedAt_updateProgress)

text \<open>Four goals with target 50, due at time 1000 and updated at time 2000: an active
  one that reaches its target ends completed, not overdue; an active one updated to 25
  ends overdue; the same update before the due date leaves it active; a paused one that
  reaches its target stays paused.\<close>

theorem updateProgress_status_transition_witness:
  "status (updateProgress (fresh_goal Increase 50 Active 1000) (Num 50) None ''u1'' 2000 2001 2002)
     = Completed \<and>
   completedAt
     (updateProgress (fresh_goal Increase 50 Active 1000) (Num 50) None ''u1'' 2000 2001 2002)
     = Some 2001 \<and>
   status (updateProgress (fresh_goal Increase 50 Active 1000) (Num 25) None ''u1'' 2000 2001 2002)
     = Overdue \<and>
   status (updateProgress (fresh_goal Increase 50 Active 1000) (Num 25) None ''u1'' 500 501 502)
     = Active \<and>
   status (updateProgress (fresh_goal Increase 50 Paused 1000) (Num 50) None ''u1'' 2000 2001 2002)
     = Paused \<and>
   completedAt
     (updateProgress (fresh_goal Increase 50 Paused 1000) (Num 50) None ''u1'' 2000 2001 2002)
     = None"
  using updateProgress_status_transition
          [of "fresh_goal Increase 50 Active 1000" "Num 50" None "''u1''" 2000 2001 2002]
        updateProgress_status_transition
          [of "fresh_goal Increase 50 Active 1000" "Num 25" None "''u1''" 2000 2001 2002]
        updateProgress_status_transition
          [of "fresh_goal Increase 50 Active 1000" "Num 25" None "''u1''" 500 501 502]
        updateProgress_status_transition
          [of "fresh_goal Increase 50 Paused 1000" "Num 50" None "''u1''" 2000 2001 2002]
        to_double_values
  by (simp add: Let_def percentage_updateProgress compute_percentage_def fresh_goal_def
      Math_min_def js_ge_def fl_mul_def fl_div_def round_num_def)

text \<open>
  Claim C4. After \<open>updateProgress\<close> the update log is the old log followed by the one
  entry \<open>{date, value, notes, updatedBy}\<close> built from the clock reading and the
  arguments: it is one entry longer and its old part is unchanged.
\<close>

theorem updateProgress_appends_one_entry:
  "updates (progress (updateProgress g v n u t1 t2 t3)) =
     updates (progress g) @ [\<lparr>date = t1, value_u = v, notes_u = n, updatedBy = u\<rparr>] \<and>
   length (updates (progress (updateProgress g v n u t1 t2 t3))) =
     Suc (length (updates (progress g))) \<and>
   take (length (updates (progress g))) (updates (progress (updateProgress g v n u t1 t2 t3))) =
     updates (progress g)"
  by (simp add: updates_updateProgress)

section \<open>Sums and averages of finite numbers\<close>

lemma foldl_js_add_finite:
  assumes "\<forall>x\<in>set xs. is_finite (f x)"
  shows "foldl (\<lambda>sum x. js_add sum (f x)) (Num a) xs =
           Num (a + sum_list (map (\<lambda>x. real_of (f x)) xs))"
  using assms
proof (induction xs arbitrary: a)
  case Nil
  then show ?case by simp
next
  case (Cons x xs)
  from Cons.prems obtain r where r: "f x = Num r" by (cases "f x") auto
  with Cons show ?case by (simp add: add.assoc)
qed

lemma reduce_sum_finite:
  "\<forall>x\<in>set xs. is_finite (f x) \<Longrightarrow>
     reduce_sum f xs = Num (sum_list (map (\<lambda>x. real_of (f x)) xs))"
  by (simp add: reduce_sum_def foldl_js_add_finite)

lemma reduce_avg_finite:
  "\<forall>x\<in>set xs. is_finite (f x) \<Longrightarrow> xs \<noteq> [] \<Longrightarrow>
     reduce_avg f xs = Num (sum_list (map (\<lambda>x. real_of (f x)) xs) / real (length xs))"
  by (simp add: reduce_avg_def reduce_sum_finite)

section \<open>Properties of calculateTeamAverages\<close>





section \<open>Properties of the Stat virtuals and of calculateAnalytics\<close>

lemma totalGames_calculateAnalytics: "totalGames (calculateAnalytics stats sport) = length stats"
  by (simp add: calculateAnalytics_def only_totalGames_def)

text \<open>The rounding never produces NaN, so NaN can only come out of the division.\<close>

lemma to_double_not_NaN: "to_double x \<noteq> NaN"
  by (simp add: to_double_def Let_def)

lemma round_num_NaN: "round_num x = NaN \<longleftrightarrow> x = NaN"
  by (cases x) (simp_all add: round_num_def to_double_not_NaN)

lemma fl_mul_100_NaN: "fl_mul x (Num 100) = NaN \<longleftrightarrow> x = NaN"
  by (cases x) (simp_all add: fl_mul_def round_num_NaN)

lemma fl_div_NaN:
  "js_gt a (Num 0) \<Longrightarrow>
     fl_div m a = NaN \<longleftrightarrow> m = NaN \<or> ((m = PosInf \<or> m = NegInf) \<and> a = PosInf)"
  by (cases m; cases a) (simp_all add: fl_div_def round_num_NaN js_gt_def)

lemma documented_ratio_NaN:
  "documented_ratio m a = NaN \<longleftrightarrow>
     js_gt a (Num 0) \<and> (m = NaN \<or> ((m = PosInf \<or> m = NegInf) \<and> a = PosInf))"
  by (simp add: documented_ratio_def fl_mul_100_NaN fl_div_NaN)

lemma documented_ratio_finite:
  "is_finite m \<Longrightarrow> is_finite a \<Longrightarrow> documented_ratio m a \<noteq> NaN"
  by (cases m; cases a) (simp_all add: documented_ratio_NaN)

lemma virtuals_documented:
  "fieldGoalPercentage s =
     documented_ratio (fieldGoalsMade (basketball s)) (fieldGoalsAttempted (basketball s))"
  "threePointPercentage s =
     documented_ratio (threePointersMade (basketball s)) (threePointersAttempted (basketball s))"
  "freeThrowPercentage s =
     documented_ratio (freeThrowsMade (basketball s)) (freeThrowsAttempted (basketball s))"
  "passAccuracy s = documented_ratio (passesCompleted (soccer s)) (passes (soccer s))"
  "passCompletionPercentage s =
     documented_ratio (passingCompletions (football s)) (passingAttempts (football s))"
  by (simp_all add: fieldGoalPercentage_def threePointPercentage_def freeThrowPercentage_def
      passAccuracy_def passCompletionPercentage_def documented_ratio_def)

text \<open>
  Claim C6 says that the derived ratios are never NaN, for every record. A record whose
  field-goal counters are both Infinity has a positive attempt counter, and its
  field-goal percentage is Infinity/Infinity*100, which is NaN.
\<close>

theorem fieldGoalPercentage_of_infinite_counters:
  "js_gt (fieldGoalsAttempted (basketball overflowed_game)) (Num 0) \<and>
   fieldGoalPercentage overflowed_game = NaN"
  by (simp add: fieldGoalPercentage_def overflowed_game_def basketball_game_def js_gt_def
      fl_div_def fl_mul_def round_num_def)

text \<open>
  Claim C6, amended. Each of the five virtuals (field-goal, three-point and free-throw
  percentage, pass accuracy, pass completion percentage) is the documented ratio of its
  two counters: made/attempted*100 when the attempt counter is positive, and the number 0
  when the attempt counter is 0. The ratio is NaN exactly when the attempt counter is
  positive and the made counter is NaN or both counters are infinite; for finite counters
  it is never NaN, so a record with finite counters contributes a number to each
  percentage field that \<open>calculateAnalytics\<close> averages.
\<close>

theorem virtual_percentages_are_documented_ratios:
  "fieldGoalPercentage s =
     documented_ratio (fieldGoalsMade (basketball s)) (fieldGoalsAttempted (basketball s)) \<and>
   threePointPercentage s =
     documented_ratio (threePointersMade (basketball s)) (threePointersAttempted (basketball s)) \<and>
   freeThrowPercentage s =
     documented_ratio (freeThrowsMade (basketball s)) (freeThrowsAttempted (basketball s)) \<and>
   passAccuracy s = documented_ratio (passesCompleted (soccer s)) (passes (soccer s)) \<and>
   passCompletionPercentage s =
     documented_ratio (passingCompletions (football s)) (passingAttempts (football s)) \<and>
   (\<forall>m a. (js_gt a (Num 0) \<longrightarrow> documented_ratio m a = fl_mul (fl_div m a) (Num 100)) \<and>
          documented_ratio m (Num 0) = Num 0 \<and>
          (documented_ratio m a = NaN \<longleftrightarrow>
             js_gt a (Num 0) \<and> (m = NaN \<or> ((m = PosInf \<or> m = NegInf) \<and> a = PosInf))) \<and>
          (is_finite m \<and> is_finite a \<longrightarrow> documented_ratio m a \<noteq> NaN)) \<and>
   (finite_counters s \<longrightarrow>
      fieldGoalPercentage s \<noteq> NaN \<and> threePointPercentage s \<noteq> NaN \<and>
      freeThrowPercentage s \<noteq> NaN \<and> passAccuracy s \<noteq> NaN \<and>
      passCompletionPercentage s \<noteq> NaN) \<and>
   (stats \<noteq> [] \<longrightarrow>
      averageFieldGoalPercentage (calculateAnalytics stats ''basketball'') =
        Some (reduce_avg fieldGoalPercentage stats) \<and>
      averageThreePointPercentage (calculateAnalytics stats ''basketball'') =
        Some (reduce_avg threePointPercentage stats) \<and>
      averageFreeThrowPercentage (calculateAnalytics stats ''basketball'') =
        Some (reduce_avg freeThrowPercentage stats) \<and>
      averagePassAccuracy (calculateAnalytics stats ''soccer'') =
        Some (reduce_avg passAccuracy stats))"
proof -
  have ratio: "\<forall>m a. (js_gt a (Num 0) \<longrightarrow> documented_ratio m a = fl_mul (fl_div m a) (Num 100)) \<and>
          documented_ratio m (Num 0) = Num 0 \<and>
          (documented_ratio m a = NaN \<longleftrightarrow>
             js_gt a (Num 0) \<and> (m = NaN \<or> ((m = PosInf \<or> m = NegInf) \<and> a = PosInf))) \<and>
          (is_finite m \<and> is_finite a \<longrightarrow> documented_ratio m a \<noteq> NaN)"
  proof (intro allI conjI impI)
    fix m a
    show "documented_ratio m (Num 0) = Num 0"
      by (simp add: documented_ratio_def js_gt_def)
    show "documented_ratio m a = NaN \<longleftrightarrow>
             js_gt a (Num 0) \<and> (m = NaN \<or> ((m = PosInf \<or> m = NegInf) \<and> a = PosInf))"
      by (rule documented_ratio_NaN)
    { assume "js_gt a (Num 0)"
      then show "documented_ratio m a = fl_mul (fl_div m a) (Num 100)"
        by (simp add: documented_ratio_def) }
    { assume "is_finite m \<and> is_finite a"
      then show "documented_ratio m a \<noteq> NaN"
        by (simp add: documented_ratio_finite) }
  qed
  have fin: "finite_counters s \<longrightarrow>
      fieldGoalPercentage s \<noteq> NaN \<and> threePointPercentage s \<noteq> NaN \<and>
      freeThrowPercentage s \<noteq> NaN \<and> passAccuracy s \<noteq> NaN \<and>
      passCompletionPercentage s \<noteq> NaN"
    by (simp add: finite_counters_def virtuals_documented documented_ratio_finite)
  have avg: "stats \<noteq> [] \<longrightarrow>
      averageFieldGoalPercentage (calculateAnalytics stats ''basketball'') =
        Some (reduce_avg fieldGoalPercentage stats) \<and>
      averageThreePointPercentage (calculateAnalytics stats ''basketball'') =
        Some (reduce_avg threePointPercentage stats) \<and>
      averageFreeThrowPercentage (calculateAnalytics stats ''basketball'') =
        Some (reduce_avg freeThrowPercentage stats) \<and>
      averagePassAccuracy (calculateAnalytics stats ''soccer'') =
        Some (reduce_avg passAccuracy stats)"
    by (simp add: calculateAnalytics_def only_totalGames_def)
  from virtuals_documented[of s] ratio fin avg show ?thesis by blast
qed

text \<open>Seven of 25 field goals give 28.000000000000004 percent, eight of 16 give 50
  percent, and a record without a three-point attempt has the three-point percentage 0;
  the two games of the specification average 50 percent.\<close>

theorem virtual_percentages_are_documented_ratios_witness:
  "js_gt (fieldGoalsAttempted (basketball (basketball_game 0 7 25))) (Num 0) \<and>
   finite_counters (basketball_game 0 7 25) \<and>
   fieldGoalPercentage (basketball_game 0 7 25) = Num (28 + 1 / 2 ^ 48) \<and>
   fieldGoalPercentage (basketball_game 20 8 16) = Num 50 \<and>
   threePointPercentage (basketball_game 20 8 16) = Num 0 \<and>
   [basketball_game 20 8 16, basketball_game 30 10 20] \<noteq> [] \<and>
   averageFieldGoalPercentage
     (calculateAnalytics [basketball_game 20 8 16, basketball_game 30 10 20] ''basketball'')
     = Some (Num 50)"
  using virtual_percentages_are_documented_ratios
          [of "basketball_game 0 7 25" "[basketball_game 20 8 16, basketball_game 30 10 20]"]
        virtual_percentages_are_documented_ratios
          [of "basketball_game 20 8 16" "[basketball_game 20 8 16, basketball_game 30 10 20]"]
        to_double_values
  by (simp add: finite_counters_def basketball_game_def documented_ratio_def js_gt_def
      fl_mul_def fl_div_def round_num_def reduce_avg_def reduce_sum_def fieldGoalPercentage_def)

text \<open>
  Claim C7. On the empty record list \<open>calculateAnalytics\<close> returns the object with the
  single property \<open>totalGames = 0\<close>, for every sport: no average is computed, so nothing
  is divided by the length 0, and the result is an ordinary value.
\<close>

theorem calculateAnalytics_empty:
  "calculateAnalytics [] sport =
     \<lparr>totalGames = 0, averagePoints = None, averageRebounds = None, averageAssists = None,
      averageFieldGoalPercentage = None, averageThreePointPercentage = None,
      averageFreeThrowPercentage = None, bestGame = None, totalGoals_a = None,
      totalAssists = None, averagePassAccuracy = None, averageShots = None\<rparr>"
  by (simp add: calculateAnalytics_def only_totalGames_def)

text \<open>The \<open>bestGame\<close> reduction never leaves its accumulator: the comparison against the
  absent property \<open>best.points\<close> is false for every record.\<close>

lemma foldl_best_step: "foldl best_step b stats = b"
proof (induction stats arbitrary: b)
  case Nil
  show ?case by simp
next
  case (Cons s stats)
  have "best_step b s = b"
    by (cases b) (simp_all add: best_step_def js_gt_opt_def)
  with Cons show ?case by simp
qed

lemma bestGame_basketball:
  "stats \<noteq> [] \<Longrightarrow> bestGame (calculateAnalytics stats ''basketball'') = Some Sentinel"
  by (simp add: calculateAnalytics_def only_totalGames_def foldl_best_step)

text \<open>
  Claim C8 says that \<open>bestGame\<close> is the record with the most points, 30 in the two-game
  example. For the games with 20 and 30 points the code returns the seed object
  \<open>{ basketball: { points: 0 } }\<close>: its \<open>points\<close> property is absent and its
  \<open>basketball.points\<close> is 0, while the average of the points is 25 as documented.
\<close>

theorem calculateAnalytics_bestGame_is_seed:
  "bestGame (calculateAnalytics [basketball_game 20 8 16, basketball_game 30 10 20] ''basketball'')
     = Some Sentinel \<and>
   best_points Sentinel = None \<and>
   best_basketball_points Sentinel = Num 0 \<and>
   averagePoints (calculateAnalytics [basketball_game 20 8 16, basketball_game 30 10 20] ''basketball'')
     = Some (Num 25)"
  by (simp add: calculateAnalytics_def only_totalGames_def best_step_def js_gt_opt_def
      reduce_avg_def reduce_sum_def or_zero_def basketball_game_def)

section \<open>Properties of calculateGoalProgress and generateSummary\<close>

lemma totalGoals_calculateGoalProgress:
  "totalGoals (calculateGoalProgress gs) = (if gs = [] then None else Some (length gs))"
  by (simp add: calculateGoalProgress_def Let_def)

lemma completedGoals_calculateGoalProgress:
  "completedGoals (calculateGoalProgress gs) = length (filter (\<lambda>g. status g = Completed) gs)"
  by (simp add: calculateGoalProgress_def Let_def)

lemma activeGoals_calculateGoalProgress:
  "activeGoals (calculateGoalProgress gs) = length (filter (\<lambda>g. status g = Active) gs)"
  by (simp add: calculateGoalProgress_def Let_def)

lemma totalGoals_positive_calculateGoalProgress:
  "totalGoals_positive (calculateGoalProgress gs) = (gs \<noteq> [])"
  by (simp add: totalGoals_positive_def totalGoals_calculateGoalProgress)

lemma completed_imp_nonempty:
  "0 < completedGoals (calculateGoalProgress gs) \<Longrightarrow> gs \<noteq> []"
  by (auto simp: completedGoals_calculateGoalProgress)

lemma averageProgress_finite:
  assumes "\<forall>g\<in>set gs. is_finite (percentage (progress g))" and "gs \<noteq> []"
  shows "averageProgress (calculateGoalProgress gs) =
           Num (of_int (round (sum_list (map (\<lambda>g. real_of (percentage (progress g))) gs)
                                 / real (length gs))))"
  using reduce_avg_finite[OF assms] assms(2) by (simp add: calculateGoalProgress_def Let_def)

text \<open>The five sentences start differently, so none can be taken for another.\<close>

lemma sentences_distinct:
  "played_sentence str a \<noteq> averaged_sentence str toFixed a'"
  "played_sentence str a \<noteq> scored_sentence str a'"
  "played_sentence str a \<noteq> working_sentence str gp"
  "played_sentence str a \<noteq> completed_sentence str gp"
  "averaged_sentence str toFixed a \<noteq> scored_sentence str a'"
  "averaged_sentence str toFixed a \<noteq> working_sentence str gp"
  "averaged_sentence str toFixed a \<noteq> completed_sentence str gp"
  "scored_sentence str a \<noteq> working_sentence str gp"
  "scored_sentence str a \<noteq> completed_sentence str gp"
  "working_sentence str gp \<noteq> completed_sentence str gp'"
  by (simp_all add: played_sentence_def averaged_sentence_def scored_sentence_def
      working_sentence_def completed_sentence_def)

lemma summary_membership:
  "played_sentence str a \<in> set (summary_array str toFixed a gp sport) \<longleftrightarrow> 0 < totalGames a"
  "averaged_sentence str toFixed a \<in> set (summary_array str toFixed a gp sport) \<longleftrightarrow>
     0 < totalGames a \<and> sport = ''basketball''"
  "scored_sentence str a \<in> set (summary_array str toFixed a gp sport) \<longleftrightarrow>
     0 < totalGames a \<and> sport = ''soccer''"
  "working_sentence str gp \<in> set (summary_array str toFixed a gp sport) \<longleftrightarrow> totalGoals_positive gp"
  "completed_sentence str gp \<in> set (summary_array str toFixed a gp sport) \<longleftrightarrow>
     totalGoals_positive gp \<and> 0 < completedGoals gp"
  by (auto simp: summary_array_def stats_block_def goals_block_def sentences_distinct
      sentences_distinct[THEN not_sym])

lemma length_join:
  "length (join sep xs) = sum_list (map length xs) + (length xs - 1) * length sep"
  by (induction sep xs rule: join.induct) simp_all

text \<open>
  Claim C9. For the analytics and the goal progress that the report route computes from
  the athlete's records and goals, the summary is the join, with one space between
  neighbours, of the sentences pushed in this order: the games-played sentence, present
  exactly when \<open>totalGames > 0\<close>; with it the sport's stat sentence (basketball and soccer
  have one, the other sports have none); the goals-in-progress sentence, present exactly
  when \<open>totalGoals > 0\<close>; the completed-goals sentence, present exactly when
  \<open>completedGoals > 0\<close>. A sentence whose condition fails leaves nothing behind: when no
  condition holds the summary is the empty string.
\<close>

theorem report_summary_sentences:
  fixes stats :: "stat list" and sport :: string and gs :: "('a goal_scheme) list"
    and str toFixed :: "jsnum \<Rightarrow> string"
  defines "a \<equiv> calculateAnalytics stats sport"
  defines "gp \<equiv> calculateGoalProgress gs"
  defines "arr \<equiv> summary_array str toFixed a gp sport"
  shows "generateSummary str toFixed a gp sport = join '' '' arr \<and>
         length (generateSummary str toFixed a gp sport) = sum_list (map length arr) + (length arr - 1) \<and>
         arr =
           (if 0 < totalGames a then
              played_sentence str a #
                (if sport = ''basketball'' then [averaged_sentence str toFixed a]
                 else if sport = ''soccer'' then [scored_sentence str a] else [])
            else []) @
           (if totalGoals_positive gp then [working_sentence str gp] else []) @
           (if 0 < completedGoals gp then [completed_sentence str gp] else []) \<and>
         (played_sentence str a \<in> set arr \<longleftrightarrow> 0 < totalGames a) \<and>
         (sport = ''basketball'' \<longrightarrow> (averaged_sentence str toFixed a \<in> set arr \<longleftrightarrow> 0 < totalGames a)) \<and>
         (sport = ''soccer'' \<longrightarrow> (scored_sentence str a \<in> set arr \<longleftrightarrow> 0 < totalGames a)) \<and>
         (working_sentence str gp \<in> set arr \<longleftrightarrow> totalGoals_positive gp) \<and>
         (completed_sentence str gp \<in> set arr \<longleftrightarrow> 0 < completedGoals gp) \<and>
         (\<not> 0 < totalGames a \<and> \<not> totalGoals_positive gp \<and> \<not> 0 < completedGoals gp \<longrightarrow>
            generateSummary str toFixed a gp sport = [])"
proof -
  have pos: "0 < completedGoals gp \<Longrightarrow> totalGoals_positive gp"
    unfolding gp_def
    by (simp add: totalGoals_positive_calculateGoalProgress completed_imp_nonempty)
  have arr: "arr =
           (if 0 < totalGames a then
              played_sentence str a #
                (if sport = ''basketball'' then [averaged_sentence str toFixed a]
                 else if sport = ''soccer'' then [scored_sentence str a] else [])
            else []) @
           (if totalGoals_positive gp then [working_sentence str gp] else []) @
           (if 0 < completedGoals gp then [completed_sentence str gp] else [])"
    using pos by (auto simp: arr_def summary_array_def stats_block_def goals_block_def)
  have gen: "generateSummary str toFixed a gp sport = join '' '' arr"
    by (simp add: generateSummary_def arr_def)
  have len: "length (generateSummary str toFixed a gp sport) =
               sum_list (map length arr) + (length arr - 1)"
    by (simp add: gen length_join)
  have empty: "\<not> 0 < totalGames a \<and> \<not> totalGoals_positive gp \<and> \<not> 0 < completedGoals gp \<longrightarrow>
            generateSummary str toFixed a gp sport = []"
    by (simp add: gen arr)
  have mem: "played_sentence str a \<in> set arr \<longleftrightarrow> 0 < totalGames a"
    "sport = ''basketball'' \<longrightarrow> (averaged_sentence str toFixed a \<in> set arr \<longleftrightarrow> 0 < totalGames a)"
    "sport = ''soccer'' \<longrightarrow> (scored_sentence str a \<in> set arr \<longleftrightarrow> 0 < totalGames a)"
    "working_sentence str gp \<in> set arr \<longleftrightarrow> totalGoals_positive gp"
    "completed_sentence str gp \<in> set arr \<longleftrightarrow> 0 < completedGoals gp"
    using pos by (auto simp: arr_def summary_membership)
  from gen len arr mem empty show ?thesis by blast
qed

text \<open>The specification's two games with two goals, one active at 40 percent and one
  completed at 100 percent; a soccer game without any goal; no game and no goal.\<close>

lemma example_analytics:
  "calculateAnalytics [basketball_game 20 8 16, basketball_game 30 10 20] ''basketball'' =
     (only_totalGames 2)\<lparr>averagePoints := Some (Num 25), averageRebounds := Some (Num 0),
        averageAssists := Some (Num 0), averageFieldGoalPercentage := Some (Num 50),
        averageThreePointPercentage := Some (Num 0), averageFreeThrowPercentage := Some (Num 0),
        bestGame := Some Sentinel\<rparr>"
  using to_double_values
  by (simp add: calculateAnalytics_def only_totalGames_def reduce_avg_def reduce_sum_def
      or_zero_def basketball_game_def fieldGoalPercentage_def threePointPercentage_def
      freeThrowPercentage_def js_gt_def best_step_def js_gt_opt_def fl_mul_def fl_div_def
      round_num_def)

lemma example_progress:
  "calculateGoalProgress [goal_at Active 40, goal_at Completed 100] =
     \<lparr>totalGoals = Some 2, activeGoals = 1, completedGoals = 1, averageProgress = Num 70\<rparr>"
  by (simp add: calculateGoalProgress_def Let_def reduce_avg_def reduce_sum_def goal_at_def)

lemma example_prints:
  "print_whole (Num 0) = ''0''" "print_whole (Num 1) = ''1''" "print_whole (Num 2) = ''2''"
  "print_whole (Num 25) = ''25''" "print_whole (Num 70) = ''70''"
  by (simp_all add: print_whole_def decimal.simps)

theorem report_summary_sentences_witness:
  "generateSummary print_whole print_fixed1
     (calculateAnalytics [basketball_game 20 8 16, basketball_game 30 10 20] ''basketball'')
     (calculateGoalProgress [goal_at Active 40, goal_at Completed 100]) ''basketball'' =
   ''Played 2 games in the reporting period. Averaged 25.0 points, 0.0 rebounds, and 0.0 assists per game. Working on 1 active goals with 70% average progress. Successfully completed 1 goals.'' \<and>
   generateSummary print_whole print_fixed1 (calculateAnalytics [soccer_game 2 1] ''soccer'')
     (calculateGoalProgress ([] :: goal list)) ''soccer'' =
   ''Played 1 games in the reporting period. Scored 2 goals and provided 1 assists.'' \<and>
   generateSummary print_whole print_fixed1 (calculateAnalytics [] ''basketball'')
     (calculateGoalProgress ([] :: goal list)) ''basketball'' = []"
proof (intro conjI)
  show "generateSummary print_whole print_fixed1 (calculateAnalytics [soccer_game 2 1] ''soccer'')
     (calculateGoalProgress ([] :: goal list)) ''soccer'' =
   ''Played 1 games in the reporting period. Scored 2 goals and provided 1 assists.''"
    using report_summary_sentences
          [where stats = "[soccer_game 2 1]" and sport = "''soccer''" and gs = "[] :: goal list"
             and str = print_whole and toFixed = print_fixed1]
    by (simp add: calculateAnalytics_def only_totalGames_def calculateGoalProgress_def
        totalGoals_positive_def played_sentence_def scored_sentence_def reduce_sum_def
        or_zero_def or_zero_opt_def soccer_game_def example_prints)
  show "generateSummary print_whole print_fixed1
     (calculateAnalytics [basketball_game 20 8 16, basketball_game 30 10 20] ''basketball'')
     (calculateGoalProgress [goal_at Active 40, goal_at Completed 100]) ''basketball'' =
   ''Played 2 games in the reporting period. Averaged 25.0 points, 0.0 rebounds, and 0.0 assists per game. Working on 1 active goals with 70% average progress. Successfully completed 1 goals.''"
    using report_summary_sentences
          [where stats = "[basketball_game 20 8 16, basketball_game 30 10 20]"
             and sport = "''basketball''" and gs = "[goal_at Active 40, goal_at Completed 100]"
             and str = print_whole and toFixed = print_fixed1]
    by (simp add: example_analytics example_progress only_totalGames_def totalGoals_positive_def
        played_sentence_def averaged_sentence_def working_sentence_def completed_sentence_def
        fixed_or_zero_def print_fixed1_def example_prints)
  show "generateSummary print_whole print_fixed1 (calculateAnalytics [] ''basketball'')
     (calculateGoalProgress ([] :: goal list)) ''basketball'' = []"
    using report_summary_sentences
          [where stats = "[]" and sport = "''basketball''" and gs = "[] :: goal list"
             and str = print_whole and toFixed = print_fixed1]
    by (simp add: calculateAnalytics_def only_totalGames_def calculateGoalProgress_def
        totalGoals_positive_def)
qed

text \<open>
  Claim C10. On the empty goal list \<open>calculateGoalProgress\<close> returns exactly
  \<open>{averageProgress: 0, completedGoals: 0, activeGoals: 0}\<close>, with no \<open>totalGoals\<close>
  property (absent, not the number 0). On a non-empty list the result has \<open>totalGoals\<close>
  equal to the length of the list, the counts of active and completed goals, and as
  \<open>averageProgress\<close> the rounded mean of the stored percentages. With the result for the
  empty list the test \<open>goalProgress.totalGoals > 0\<close> of \<open>generateSummary\<close> is false, so the
  summary holds the sentences of the stats block only and no goals sentence.
\<close>

theorem calculateGoalProgress_shape:
  fixes gs :: "('a goal_scheme) list"
  shows "calculateGoalProgress ([] :: ('a goal_scheme) list) =
           \<lparr>totalGoals = None, activeGoals = 0, completedGoals = 0, averageProgress = Num 0\<rparr> \<and>
         (gs \<noteq> [] \<longrightarrow>
            totalGoals (calculateGoalProgress gs) = Some (length gs) \<and>
            activeGoals (calculateGoalProgress gs) = length (filter (\<lambda>g. status g = Active) gs) \<and>
            completedGoals (calculateGoalProgress gs) =
              length (filter (\<lambda>g. status g = Completed) gs)) \<and>
         (gs \<noteq> [] \<and> (\<forall>g\<in>set gs. is_finite (percentage (progress g))) \<longrightarrow>
            averageProgress (calculateGoalProgress gs) =
              Num (of_int (round (sum_list (map (\<lambda>g. real_of (percentage (progress g))) gs)
                                    / real (length gs))))) \<and>
         totalGoals (calculateGoalProgress ([] :: ('a goal_scheme) list)) \<noteq> Some 0 \<and>
         \<not> totalGoals_positive (calculateGoalProgress ([] :: ('a goal_scheme) list)) \<and>
         summary_array str toFixed a (calculateGoalProgress ([] :: ('a goal_scheme) list)) sport =
           stats_block str toFixed a sport \<and>
         working_sentence str (calculateGoalProgress ([] :: ('a goal_scheme) list)) \<notin>
           set (summary_array str toFixed a (calculateGoalProgress ([] :: ('a goal_scheme) list)) sport)"
proof (intro conjI impI)
  show "calculateGoalProgress ([] :: ('a goal_scheme) list) =
          \<lparr>totalGoals = None, activeGoals = 0, completedGoals = 0, averageProgress = Num 0\<rparr>"
    by (simp add: calculateGoalProgress_def)
next
  assume "gs \<noteq> []"
  then show "totalGoals (calculateGoalProgress gs) = Some (length gs)"
    by (simp add: totalGoals_calculateGoalProgress)
next
  show "activeGoals (calculateGoalProgress gs) = length (filter (\<lambda>g. status g = Active) gs)"
    by (rule activeGoals_calculateGoalProgress)
next
  show "completedGoals (calculateGoalProgress gs) = length (filter (\<lambda>g. status g = Completed) gs)"
    by (rule completedGoals_calculateGoalProgress)
next
  assume "gs \<noteq> [] \<and> (\<forall>g\<in>set gs. is_finite (percentage (progress g)))"
  then show "averageProgress (calculateGoalProgress gs) =
      Num (of_int (round (sum_list (map (\<lambda>g. real_of (percentage (progress g))) gs)
                            / real (length gs))))"
    by (simp add: averageProgress_finite)
next
  show "totalGoals (calculateGoalProgress ([] :: ('a goal_scheme) list)) \<noteq> Some 0"
    by (simp add: totalGoals_calculateGoalProgress)
next
  show "\<not> totalGoals_positive (calculateGoalProgress ([] :: ('a goal_scheme) list))"
    by (simp add: totalGoals_positive_calculateGoalProgress)
next
  show "summary_array str toFixed a (calculateGoalProgress ([] :: ('a goal_scheme) list)) sport =
          stats_block str toFixed a sport"
    by (simp add: summary_array_def goals_block_def totalGoals_positive_calculateGoalProgress)
next
  show "working_sentence str (calculateGoalProgress ([] :: ('a goal_scheme) list)) \<notin>
          set (summary_array str toFixed a (calculateGoalProgress ([] :: ('a goal_scheme) list)) sport)"
    by (simp add: summary_membership totalGoals_positive_calculateGoalProgress)
qed

text \<open>Two goals at 40 and 25 percent, one of them active: two goals in total, and the
  mean 32.5 is stored as 33.\<close>

theorem calculateGoalProgress_shape_witness:
  "[goal_at Active 40, goal_at Paused 25] \<noteq> [] \<and>
   is_finite (percentage (progress (goal_at Active 40))) \<and>
   is_finite (percentage (progress (goal_at Paused 25))) \<and>
   totalGoals (calculateGoalProgress [goal_at Active 40, goal_at Paused 25]) = Some 2 \<and>
   activeGoals (calculateGoalProgress [goal_at Active 40, goal_at Paused 25]) = 1 \<and>
   completedGoals (calculateGoalProgress [goal_at Active 40, goal_at Paused 25]) = 0 \<and>
   averageProgress (calculateGoalProgress [goal_at Active 40, goal_at Paused 25]) = Num 33 \<and>
   totalGoals (calculateGoalProgress ([] :: goal list)) = None"
  using calculateGoalProgress_shape [where gs = "[goal_at Active 40, goal_at Paused 25]"]
  by (simp add: goal_at_def round_def)

end
